theory Spec2Isabelle
  imports Main "HOL-Library.AList" "HOL-Library.Sublist"
begin

section \<open>Values, errors and JavaScript maps\<close>

text \<open>
  The adapters store values of TypeScript type \<open>any\<close>. They are modelled by the JSON
  shapes plus \<open>undefined\<close>. Numbers are integers (the clock readings, counters and
  sizes the code stores); an object is the list of its own properties in enumeration
  order, with property names unique.

  A thrown \<open>Error\<close> object is a value of type \<open>error\<close>: \<open>Error msg\<close> is an
  \<open>Error\<close> whose \<open>message\<close> is \<open>msg\<close>, as \<open>new Error(msg)\<close> makes it. A
  rejected promise is a result \<open>Inl e\<close>, a fulfilled one \<open>Inr v\<close>.

  A JavaScript \<open>Map\<close> keeps its keys in insertion order; \<open>Map.set\<close> on a present key
  replaces the value where it stands and on a new key appends: this is \<open>AList.update\<close>.
  \<open>Map.get\<close> is \<open>map_of\<close>, \<open>Map.delete\<close> is \<open>AList.delete\<close>.
\<close>

datatype jsval =
    JUndefined
  | JNull
  | JBool bool
  | JNum int
  | JStr string
  | JArr "jsval list"
  | JObj "(string \<times> jsval) list"

datatype error = Error string


type_synonym 'v jsmap = "(string \<times> 'v) list"

text \<open>\<open>s.split('/')\<close>: the pieces between the slashes; never the empty list.\<close>

fun split_slash :: "string \<Rightarrow> string list" where
  "split_slash [] = [[]]"
| "split_slash (c # cs) =
     (if c = CHR ''/'' then [] # split_slash cs
      else (case split_slash cs of
              [] \<Rightarrow> [[c]]
            | p # ps \<Rightarrow> (c # p) # ps))"

text \<open>\<open>s.startsWith(t)\<close> is \<open>prefix t s\<close>.\<close>

definition startsWith :: "string \<Rightarrow> string \<Rightarrow> bool" where
  "startsWith s t = prefix t s"

section \<open>The snapshot adapter (LocalAdapter)\<close>

text \<open>
  The adapter's state: the flat \<open>Map\<close> from path keys to values, the dirty flag, the
  parsed content of the data file (\<open>None\<close> while the file does not exist), and the log
  of what was handed to listeners: \<open>events.emit('change', path, value)\<close>,
  \<open>events.emit('delete', path)\<close> and \<open>notifySubscribers(path, data)\<close>.
\<close>

datatype local_event =
    Change string jsval
  | Delete string
  | Notify string jsval

record local_adapter =
  data :: "jsval jsmap"
  isDirty :: bool
  dataFile :: "jsval option"
  emitted :: "local_event list"

definition getNestedValue :: "local_adapter \<Rightarrow> string \<Rightarrow> jsval" where
  "getNestedValue a path =
     (case map_of (data a) path of None \<Rightarrow> JUndefined | Some v \<Rightarrow> v)"

definition setNestedValue :: "local_adapter \<Rightarrow> string \<Rightarrow> jsval \<Rightarrow> local_adapter" where
  "setNestedValue a path v = a\<lparr>data := AList.update path v (data a)\<rparr>"

text \<open>
  \<open>deleteNestedValue\<close>: delete the key, then walk a copy of the remaining keys and
  delete each one that starts with \<open>path + '/'\<close>.
\<close>

definition deleteNestedValue :: "local_adapter \<Rightarrow> string \<Rightarrow> local_adapter" where
  "deleteNestedValue a path =
     (let d1 = AList.delete path (data a);
          pre = path @ ''/''
      in a\<lparr>data := fold (\<lambda>key d. if startsWith key pre then AList.delete key d else d)
                       (map fst d1) d1\<rparr>)"

definition local_get :: "local_adapter \<Rightarrow> string \<Rightarrow> jsval" where
  "local_get a path = getNestedValue a path"

definition local_set :: "local_adapter \<Rightarrow> string \<Rightarrow> jsval \<Rightarrow> local_adapter" where
  "local_set a path v =
     (let a1 = setNestedValue a path v;
          a2 = a1\<lparr>isDirty := True\<rparr>
      in a2\<lparr>emitted := emitted a2 @ [Change path v, Notify path v]\<rparr>)"

definition local_delete :: "local_adapter \<Rightarrow> string \<Rightarrow> local_adapter" where
  "local_delete a path =
     (let a1 = deleteNestedValue a path;
          a2 = a1\<lparr>isDirty := True\<rparr>
      in a2\<lparr>emitted := emitted a2 @ [Delete path, Notify path JUndefined]\<rparr>)"

definition local_exists :: "local_adapter \<Rightarrow> string \<Rightarrow> bool" where
  "local_exists a path = (getNestedValue a path \<noteq> JUndefined)"

subsection \<open>Nesting for the file and flattening back\<close>

text \<open>
  \<open>pathToObject\<close> walks the entries of the \<open>Map\<close> in order. For one entry,
  \<open>insert_path parts v cur\<close> is the object \<open>cur\<close> after the inner loop and the final
  assignment: an intermediate name that is absent gets a fresh \<open>{}\<close>, one that is
  present is entered whatever it holds. Entering or writing into a primitive,
  \<open>null\<close> or \<open>undefined\<close> throws a \<open>TypeError\<close> of the runtime (the sources are
  ES modules, hence strict code). An array met on the way is a
  JavaScript object with index properties; that case, and names found on
  \<open>Object.prototype\<close> by the \<open>in\<close> operator, lie outside this model
  (\<open>Unmodelled\<close>). The source links stored objects into the result by reference, so
  writing below a stored object also changes the stored object; the model computes the
  nested object that is written to the file and keeps \<open>data\<close> as it is.
\<close>

datatype nest_error = TypeError | Unmodelled

fun insert_path :: "string list \<Rightarrow> jsval \<Rightarrow> jsval \<Rightarrow> nest_error + jsval" where
  "insert_path [] v cur = Inr cur"
| "insert_path [k] v cur =
     (case cur of
        JObj kvs \<Rightarrow> Inr (JObj (AList.update k v kvs))
      | JArr xs \<Rightarrow> Inl Unmodelled
      | _ \<Rightarrow> Inl TypeError)"
| "insert_path (k # ks) v cur =
     (case cur of
        JObj kvs \<Rightarrow>
          (case insert_path ks v (case map_of kvs k of None \<Rightarrow> JObj [] | Some c \<Rightarrow> c) of
             Inl e \<Rightarrow> Inl e
           | Inr c' \<Rightarrow> Inr (JObj (AList.update k c' kvs)))
      | JArr xs \<Rightarrow> Inl Unmodelled
      | _ \<Rightarrow> Inl TypeError)"

fun pathToObject_loop :: "jsval jsmap \<Rightarrow> jsval \<Rightarrow> nest_error + jsval" where
  "pathToObject_loop [] result = Inr result"
| "pathToObject_loop ((path, v) # rest) result =
     (case insert_path (split_slash path) v result of
        Inl e \<Rightarrow> Inl e
      | Inr result' \<Rightarrow> pathToObject_loop rest result')"

definition pathToObject :: "local_adapter \<Rightarrow> nest_error + jsval" where
  "pathToObject a = pathToObject_loop (data a) (JObj [])"

text \<open>
  \<open>JSON.parse(JSON.stringify(x))\<close>: a property holding \<open>undefined\<close> is left out, an
  array element holding \<open>undefined\<close> becomes \<open>null\<close>, everything else comes back as
  it was.
\<close>

fun json_value :: "jsval \<Rightarrow> jsval"
  and json_props :: "(string \<times> jsval) list \<Rightarrow> (string \<times> jsval) list"
  and json_elems :: "jsval list \<Rightarrow> jsval list" where
  "json_value (JObj kvs) = JObj (json_props kvs)"
| "json_value (JArr xs) = JArr (json_elems xs)"
| "json_value JUndefined = JUndefined"
| "json_value JNull = JNull"
| "json_value (JBool b) = JBool b"
| "json_value (JNum n) = JNum n"
| "json_value (JStr s) = JStr s"
| "json_props [] = []"
| "json_props ((k, v) # kvs) =
     (if v = JUndefined then json_props kvs else (k, json_value v) # json_props kvs)"
| "json_elems [] = []"
| "json_elems (x # xs) = (if x = JUndefined then JNull else json_value x) # json_elems xs"

text \<open>
  \<open>objectToPath(obj, prefix)\<close>. \<open>objectToPath_props\<close> is the \<open>for (key in obj)\<close>
  loop over the properties of an object: a non-array object is entered with the longer
  prefix, every other value is stored under the path.
\<close>

definition join_key :: "string \<Rightarrow> string \<Rightarrow> string" where
  "join_key pre key = (if pre \<noteq> [] then pre @ ''/'' @ key else key)"

function objectToPath_props :: "string \<Rightarrow> (string \<times> jsval) list \<Rightarrow> jsval jsmap \<Rightarrow> jsval jsmap" where
  "objectToPath_props pre [] d = d"
| "objectToPath_props pre ((key, v) # kvs) d =
     objectToPath_props pre kvs
       (case v of
          JObj kvs' \<Rightarrow> objectToPath_props (join_key pre key) kvs' d
        | _ \<Rightarrow> AList.update (join_key pre key) v d)"
  by pat_completeness auto
termination
  by (relation "measure (\<lambda>(pre, kvs, d). size_list (size_prod (\<lambda>_. 0) size) kvs)") auto

text \<open>The decimal numeral of an index, for the property names of an array.\<close>

fun digit_char :: "nat \<Rightarrow> char" where
  "digit_char n = char_of (48 + n)"

function decimal :: "nat \<Rightarrow> string" where
  "decimal n = (if n < 10 then [digit_char n] else decimal (n div 10) @ [digit_char (n mod 10)])"
  by pat_completeness auto
termination
  by (relation "measure id") auto

definition objectToPath :: "jsval \<Rightarrow> string \<Rightarrow> jsval jsmap \<Rightarrow> jsval jsmap" where
  "objectToPath obj pre d =
     (case obj of
        JObj kvs \<Rightarrow> objectToPath_props pre kvs d
      | JArr xs \<Rightarrow> objectToPath_props pre (zip (map decimal [0..<length xs]) xs) d
      | _ \<Rightarrow> (if pre \<noteq> [] then AList.update pre obj d else d))"

text \<open>
  \<open>save\<close> writes the nested object (a failure of \<open>pathToObject\<close> leaves file and flag
  as they were); \<open>load\<close> flattens the file's object into the \<open>Map\<close> it already has,
  and starts empty-handed when the file is missing. A restart is a new adapter object
  (an empty \<open>Map\<close>) on the same file.
\<close>

definition local_save :: "local_adapter \<Rightarrow> local_adapter \<times> (nest_error + unit)" where
  "local_save a =
     (case pathToObject a of
        Inl e \<Rightarrow> (a, Inl e)
      | Inr dataObj \<Rightarrow> (a\<lparr>dataFile := Some (json_value dataObj), isDirty := False\<rparr>, Inr ()))"

definition local_load :: "local_adapter \<Rightarrow> local_adapter" where
  "local_load a =
     (case dataFile a of
        None \<Rightarrow> a
      | Some dataObj \<Rightarrow> a\<lparr>data := objectToPath dataObj [] (data a)\<rparr>)"

definition local_new :: "jsval option \<Rightarrow> local_adapter" where
  "local_new f = \<lparr>data = [], isDirty = False, dataFile = f, emitted = []\<rparr>"

definition local_restart :: "local_adapter \<Rightarrow> local_adapter" where
  "local_restart a = local_load (local_new (dataFile a))"

section \<open>The adapter registry\<close>

text \<open>
  \<open>AdapterHealth\<close>, and an adapter as the registry sees it: its name and the outcome of
  its \<open>health()\<close> probe, which either returns a health record or throws. The registry
  reads \<open>(error as Error).message\<close> of what was thrown, so thrown values are \<open>Error\<close>
  objects. The static \<open>adapters\<close> map and \<open>primaryAdapter\<close> are the fields of the
  registry's state.
\<close>

datatype health_status = Healthy | Degraded | Unhealthy

record adapter_health =
  status :: health_status
  latency :: int
  storage_used :: int
  storage_available :: int
  health_error :: "string option"

record adapter =
  adapter_name :: string
  health :: "error + adapter_health"

record registry =
  adapters :: "adapter jsmap"
  primaryAdapter :: "string option"


text \<open>\<open>register\<close>: \<open>!this.primaryAdapter\<close> holds for \<open>null\<close> and for the empty string.\<close>

definition register :: "registry \<Rightarrow> adapter \<Rightarrow> registry" where
  "register reg a =
     (let reg1 = reg\<lparr>adapters := AList.update (adapter_name a) a (adapters reg)\<rparr>
      in if primaryAdapter reg1 = None \<or> primaryAdapter reg1 = Some []
         then reg1\<lparr>primaryAdapter := Some (adapter_name a)\<rparr>
         else reg1)"

definition setPrimary :: "registry \<Rightarrow> string \<Rightarrow> registry \<times> (error + unit)" where
  "setPrimary reg name =
     (if map_of (adapters reg) name \<noteq> None
      then (reg\<lparr>primaryAdapter := Some name\<rparr>, Inr ())
      else (reg, Inl (Error (''Adapter '' @ name @ '' not found''))))"




section \<open>Subscriptions of the base adapter\<close>















section \<open>The Workrooms engine\<close>

subsection \<open>Data\<close>

text \<open>
  The interfaces of \<open>types/workrooms.ts\<close>, with the fields the engine reads or writes.
  Timestamps and counters are integers. What \<open>Partial<Workroom>\<close> lets a caller of
  \<open>createRoom\<close> supply is \<open>room_options\<close>: \<open>name\<close> and \<open>type\<close> are required, every
  other field may be absent; a \<open>settings\<close> block that is supplied has all five fields,
  as its type says, and so replaces the defaults.
\<close>

datatype user_type = Agent | Human

datatype room_type = Project | Team | Task | DM | Global

record user =
  u_id :: string
  u_name :: string
  u_type :: user_type
  u_online :: bool
  u_lastSeen :: int

record settings =
  allowAgents :: bool
  allowHumans :: bool
  autoArchive :: int
  maxMessages :: int
  notifications :: bool

record workroom =
  r_id :: string
  r_name :: string
  r_type :: room_type
  r_description :: string
  r_created :: int
  r_creator :: string
  r_private :: bool
  r_members :: "string list"
  r_moderators :: "string list"
  r_active :: bool
  r_archived :: bool
  r_lastActivity :: int
  r_messageCount :: int
  r_projectId :: "string option"
  r_teamId :: "string option"
  r_taskId :: "string option"
  r_settings :: settings

record room_options =
  o_name :: string
  o_type :: room_type
  o_description :: "string option"
  o_private :: "bool option"
  o_members :: "string list option"
  o_projectId :: "string option"
  o_teamId :: "string option"
  o_taskId :: "string option"
  o_settings :: "settings option"

record message =
  m_id :: string
  m_roomId :: string
  m_from :: string
  m_fromType :: user_type
  m_to :: "string option"
  m_message :: string
  m_timestamp :: int
  m_thread :: "string option"
  m_attachments :: "string list option"

record send_options =
  so_to :: "string option"
  so_thread :: "string option"
  so_attachments :: "string list option"

record presence =
  p_roomId :: string
  p_userId :: string
  p_joined :: int
  p_lastActivity :: int

datatype event_type =
  EvMessage | EvJoin | EvLeave | EvTyping | EvPresence | EvRoomCreated | EvRoomUpdated

datatype event_data =
    DataRoom workroom
  | DataUser string
  | DataMessage message

record event =
  e_type :: event_type
  e_roomId :: string
  e_userId :: string
  e_data :: event_data
  e_timestamp :: int

text \<open>
  A write to the replicated store, \<open>gun.get(..).get(..).put(value)\<close>: the collection,
  the keys and the value written (\<open>None\<close> for \<open>put(null)\<close>).
\<close>

datatype put =
    PutRoom string workroom
  | PutMessage string string message
  | PutPresence string string "presence option"

text \<open>
  The service object. \<open>store\<close> is the sequence of writes made to the replicated store,
  \<open>events\<close> the sequence of events handed to the registered handlers, \<open>clock\<close> what
  \<open>Date.now()\<close> reads while one operation runs. An operation runs to its end without
  another one interleaved; a write to the store does not fail. An identity drawn from
  \<open>uuid()\<close> is an argument of the operation that draws it.
\<close>

record service =
  currentUser :: user
  rooms :: "workroom jsmap"
  messages :: "(message list) jsmap"
  users :: "user jsmap"
  store :: "put list"
  events :: "event list"
  clock :: int

subsection \<open>Operations\<close>

definition emit :: "service \<Rightarrow> event_type \<Rightarrow> string \<Rightarrow> event_data \<Rightarrow> service" where
  "emit st ty roomId d =
     st\<lparr>events := events st @
        [\<lparr>e_type = ty, e_roomId = roomId, e_userId = u_id (currentUser st),
          e_data = d, e_timestamp = clock st\<rparr>]\<rparr>"

definition gun_put :: "service \<Rightarrow> put \<Rightarrow> service" where
  "gun_put st w = st\<lparr>store := store st @ [w]\<rparr>"

definition default_settings :: settings where
  "default_settings =
     \<lparr>allowAgents = True, allowHumans = True, autoArchive = 30, maxMessages = 1000,
      notifications = True\<rparr>"

text \<open>The room literal of \<open>createRoom\<close>; \<open>options.members\<close> is not read.\<close>

definition new_room :: "service \<Rightarrow> string \<Rightarrow> room_options \<Rightarrow> workroom" where
  "new_room st rid options =
     \<lparr>r_id = rid,
      r_name = o_name options,
      r_type = o_type options,
      r_description = (case o_description options of None \<Rightarrow> [] | Some d \<Rightarrow> d),
      r_created = clock st,
      r_creator = u_id (currentUser st),
      r_private = (case o_private options of None \<Rightarrow> False | Some b \<Rightarrow> b),
      r_members = [u_id (currentUser st)],
      r_moderators = [u_id (currentUser st)],
      r_active = True,
      r_archived = False,
      r_lastActivity = clock st,
      r_messageCount = 0,
      r_projectId = o_projectId options,
      r_teamId = o_teamId options,
      r_taskId = o_taskId options,
      r_settings = (case o_settings options of None \<Rightarrow> default_settings | Some s \<Rightarrow> s)\<rparr>"

definition new_presence :: "service \<Rightarrow> string \<Rightarrow> presence" where
  "new_presence st roomId =
     \<lparr>p_roomId = roomId, p_userId = u_id (currentUser st), p_joined = clock st,
      p_lastActivity = clock st\<rparr>"

text \<open>
  \<open>joinRoom\<close>. The room object is shared with the map, so \<open>members.push\<close> changes the
  room the map holds.
\<close>

definition joinRoom :: "service \<Rightarrow> string \<Rightarrow> service \<times> (error + unit)" where
  "joinRoom st roomId =
     (case map_of (rooms st) roomId of
        None \<Rightarrow> (st, Inl (Error ''Room not found''))
      | Some room \<Rightarrow>
          (let me = u_id (currentUser st);
               st1 = (if me \<notin> set (r_members room)
                      then (let room' = room\<lparr>r_members := r_members room @ [me]\<rparr>
                            in gun_put (st\<lparr>rooms := AList.update roomId room' (rooms st)\<rparr>)
                                 (PutRoom roomId room'))
                      else st);
               st2 = gun_put st1 (PutPresence roomId me (Some (new_presence st1 roomId)))
           in (emit st2 EvJoin roomId (DataUser me), Inr ())))"

definition leaveRoom :: "service \<Rightarrow> string \<Rightarrow> service \<times> (error + unit)" where
  "leaveRoom st roomId =
     (case map_of (rooms st) roomId of
        None \<Rightarrow> (st, Inr ())
      | Some room \<Rightarrow>
          (let me = u_id (currentUser st);
               room' = room\<lparr>r_members := filter (\<lambda>i. i \<noteq> me) (r_members room)\<rparr>;
               st1 = gun_put (st\<lparr>rooms := AList.update roomId room' (rooms st)\<rparr>)
                       (PutRoom roomId room');
               st2 = gun_put st1 (PutPresence roomId me None)
           in (emit st2 EvLeave roomId (DataUser me), Inr ())))"

text \<open>
  \<open>createRoom\<close>. The returned \<open>room\<close> is the object the map holds under the new
  identity, so it is read back from the map after \<open>joinRoom\<close> has run.
\<close>

definition createRoom :: "service \<Rightarrow> string \<Rightarrow> room_options \<Rightarrow> service \<times> (error + workroom)" where
  "createRoom st rid options =
     (let room = new_room st rid options;
          st1 = gun_put st (PutRoom rid room);
          st2 = st1\<lparr>rooms := AList.update rid room (rooms st1)\<rparr>;
          st3 = st2\<lparr>messages := AList.update rid [] (messages st2)\<rparr>
      in case joinRoom st3 rid of
           (st4, Inl e) \<Rightarrow> (st4, Inl e)
         | (st4, Inr _) \<Rightarrow>
             (let room' = (case map_of (rooms st4) rid of None \<Rightarrow> room | Some r \<Rightarrow> r)
              in (emit st4 EvRoomCreated rid (DataRoom room'), Inr room')))"

definition updatePresence :: "service \<Rightarrow> string \<Rightarrow> service" where
  "updatePresence st roomId =
     gun_put st (PutPresence roomId (u_id (currentUser st)) (Some (new_presence st roomId)))"

definition sendMessage ::
  "service \<Rightarrow> string \<Rightarrow> string \<Rightarrow> string \<Rightarrow> send_options option \<Rightarrow> service \<times> (error + message)" where
  "sendMessage st mid roomId content options =
     (case map_of (rooms st) roomId of
        None \<Rightarrow> (st, Inl (Error ''Room not found''))
      | Some room \<Rightarrow>
          (if u_id (currentUser st) \<notin> set (r_members room)
           then (st, Inl (Error ''Not a member of this room''))
           else
             (let msg = \<lparr>m_id = mid, m_roomId = roomId, m_from = u_id (currentUser st),
                         m_fromType = u_type (currentUser st),
                         m_to = (case options of None \<Rightarrow> None | Some opt \<Rightarrow> so_to opt),
                         m_message = content,
                         m_timestamp = clock st,
                         m_thread = (case options of None \<Rightarrow> None | Some opt \<Rightarrow> so_thread opt),
                         m_attachments =
                           (case options of None \<Rightarrow> None | Some opt \<Rightarrow> so_attachments opt)\<rparr>;
                  st1 = gun_put st (PutMessage roomId mid msg);
                  room' = room\<lparr>r_lastActivity := clock st1,
                               r_messageCount := r_messageCount room + 1\<rparr>;
                  st2 = gun_put (st1\<lparr>rooms := AList.update roomId room' (rooms st1)\<rparr>)
                          (PutRoom roomId room');
                  st3 = updatePresence st2 roomId
              in (st3, Inr msg))))"

subsection \<open>Incoming messages and the read accessors\<close>

text \<open>
  \<open>Array.findIndex\<close> (\<open>None\<close> for \<open>-1\<close>) and the callback that
  \<open>subscribeToAir\<close> registers on a room's message collection. \<open>Array.sort\<close> is
  stable, and so is \<open>sort_key\<close>; the comparator \<open>a.timestamp - b.timestamp\<close> orders by
  the timestamp.
\<close>

fun findIndex :: "('a \<Rightarrow> bool) \<Rightarrow> 'a list \<Rightarrow> nat option" where
  "findIndex P [] = None"
| "findIndex P (x # xs) =
     (if P x then Some 0 else (case findIndex P xs of None \<Rightarrow> None | Some i \<Rightarrow> Some (Suc i)))"

definition store_message :: "message list \<Rightarrow> string \<Rightarrow> message \<Rightarrow> message list" where
  "store_message roomMessages msgId msg =
     (case findIndex (\<lambda>m. m_id m = msgId) roomMessages of
        Some existingIndex \<Rightarrow> roomMessages[existingIndex := msg]
      | None \<Rightarrow> sort_key m_timestamp (roomMessages @ [msg]))"

definition onMessage :: "service \<Rightarrow> string \<Rightarrow> string \<Rightarrow> message option \<Rightarrow> service" where
  "onMessage st roomId msgId delivered =
     (case delivered of
        None \<Rightarrow> st
      | Some msg \<Rightarrow>
          (let st1 = (if map_of (messages st) roomId = None
                      then st\<lparr>messages := AList.update roomId [] (messages st)\<rparr> else st);
               roomMessages = (case map_of (messages st1) roomId of None \<Rightarrow> [] | Some ms \<Rightarrow> ms);
               st2 = st1\<lparr>messages :=
                       AList.update roomId (store_message roomMessages msgId msg) (messages st1)\<rparr>
           in emit st2 EvMessage roomId (DataMessage msg)))"

text \<open>A sequence of deliveries to one room, each a key and what arrived under it.\<close>

fun deliveries :: "service \<Rightarrow> string \<Rightarrow> (string \<times> message option) list \<Rightarrow> service" where
  "deliveries st roomId [] = st"
| "deliveries st roomId ((msgId, delivered) # rest) =
     deliveries (onMessage st roomId msgId delivered) roomId rest"




text \<open>\<open>xs.slice(start)\<close> for an integer \<open>start\<close>.\<close>

definition slice_from :: "'a list \<Rightarrow> int \<Rightarrow> 'a list" where
  "slice_from xs start =
     (let n = int (length xs);
          k = (if start < 0 then max (n + start) 0 else min start n)
      in drop (nat k) xs)"

text \<open>\<open>getRoomMessages\<close>: an absent limit and the limit \<open>0\<close> are both falsy.\<close>

definition getRoomMessages :: "service \<Rightarrow> string \<Rightarrow> int option \<Rightarrow> message list" where
  "getRoomMessages st roomId limit =
     (let msgs = (case map_of (messages st) roomId of None \<Rightarrow> [] | Some ms \<Rightarrow> ms)
      in case limit of
           None \<Rightarrow> msgs
         | Some l \<Rightarrow> (if l = 0 then msgs else slice_from msgs (- l)))"


subsection \<open>Direct-message rooms\<close>





subsection \<open>Command dispatch\<close>











section \<open>Concrete states\<close>

text \<open>Small states on which the theorems below are exercised.\<close>

definition tree3 :: local_adapter where
  "tree3 =
     local_set (local_set (local_set (local_new None) ''a'' (JNum 1)) ''a/b'' (JNum 2))
       ''ab'' (JNum 3)"

definition boxed :: local_adapter where
  "boxed = local_set (local_new None) ''x'' (JObj [(''a'', JNum 1)])"






definition alice :: user where
  "alice = \<lparr>u_id = ''alice'', u_name = ''Alice'', u_type = Human, u_online = True, u_lastSeen = 0\<rparr>"

definition bob :: user where
  "bob = \<lparr>u_id = ''bob'', u_name = ''Bob'', u_type = Agent, u_online = True, u_lastSeen = 0\<rparr>"

definition empty_service :: service where
  "empty_service =
     \<lparr>currentUser = alice, rooms = [], messages = [], users = [(''bob'', bob)], store = [],
      events = [], clock = 1000\<rparr>"

definition demo_options :: room_options where
  "demo_options =
     \<lparr>o_name = ''demo'', o_type = Task, o_description = None, o_private = None,
      o_members = Some [''alice'', ''bob''], o_projectId = None, o_teamId = None,
      o_taskId = None, o_settings = None\<rparr>"

text \<open>Alice's service after she has created the room \<open>r1\<close>, and the same room seen by Bob.\<close>

definition demo :: service where
  "demo = fst (createRoom empty_service ''r1'' demo_options)"

definition demo_bob :: service where
  "demo_bob = demo\<lparr>currentUser := bob\<rparr>"

definition msg :: "string \<Rightarrow> int \<Rightarrow> message" where
  "msg i t =
     \<lparr>m_id = i, m_roomId = ''r1'', m_from = ''bob'', m_fromType = Agent, m_to = None,
      m_message = ''hello'', m_timestamp = t, m_thread = None, m_attachments = None\<rparr>"


text \<open>
  Deliveries to \<open>r1\<close>: three messages out of order with one of them delivered twice;
  a message delivered again with a later timestamp; a message delivered twice under a
  key that is not its \<open>id\<close>.
\<close>

definition shuffled :: "(string \<times> message option) list" where
  "shuffled =
     [(''b'', Some (msg ''b'' 2)), (''c'', Some (msg ''c'' 3)), (''a'', Some (msg ''a'' 1)),
      (''b'', Some (msg ''b'' 2))]"



definition three :: service where
  "three = deliveries demo ''r1'' shuffled"

section \<open>Properties of the snapshot adapter\<close>

lemma map_of_fold_delete:
  "map_of (fold (\<lambda>key d. if P key then AList.delete key d else d) ks d) k =
     (if P k \<and> k \<in> set ks then None else map_of d k)"
  by (induction ks arbitrary: d) (auto simp: AList.delete_conv')

lemma data_deleteNestedValue:
  "map_of (data (deleteNestedValue a p)) k =
     (if k = p \<or> startsWith k (p @ ''/'') then None else map_of (data a) k)"
proof -
  have absent: "k \<notin> fst ` set d \<Longrightarrow> map_of d k = None" for d :: "jsval jsmap"
    by (simp add: map_of_eq_None_iff)
  show ?thesis
    by (auto simp: deleteNestedValue_def Let_def map_of_fold_delete AList.delete_conv'
        AList.delete_keys intro: absent)
qed

lemma get_local_delete:
  "local_get (local_delete a p) k =
     (if k = p \<or> startsWith k (p @ ''/'') then JUndefined else local_get a k)"
  by (simp add: local_get_def local_delete_def getNestedValue_def Let_def data_deleteNestedValue)

lemma tree3_data: "data tree3 = [(''a'', JNum 1), (''a/b'', JNum 2), (''ab'', JNum 3)]"
  by (simp add: tree3_def local_set_def local_new_def setNestedValue_def)

text \<open>
  Claim C5. After \<open>delete(p)\<close> on the snapshot adapter, \<open>exists(p)\<close> is false, and so is
  \<open>exists(k)\<close> for every key \<open>k\<close> that starts with \<open>p + "/"\<close>; a key that is neither
  \<open>p\<close> nor below it reads and exists as before.
\<close>

theorem delete_cascade:
  "\<not> local_exists (local_delete a p) p \<and>
   (\<forall>k. startsWith k (p @ ''/'') \<longrightarrow> \<not> local_exists (local_delete a p) k) \<and>
   (\<forall>k. k \<noteq> p \<and> \<not> startsWith k (p @ ''/'') \<longrightarrow>
        local_get (local_delete a p) k = local_get a k \<and>
        local_exists (local_delete a p) k = local_exists a k)"
  using get_local_delete [of a p]
  by (simp add: local_exists_def local_get_def)

theorem delete_cascade_witness:
  "local_exists tree3 ''a'' \<and> local_exists tree3 ''a/b'' \<and>
   startsWith ''a/b'' (''a'' @ ''/'') \<and> \<not> startsWith ''ab'' (''a'' @ ''/'') \<and>
   \<not> local_exists (local_delete tree3 ''a'') ''a'' \<and>
   \<not> local_exists (local_delete tree3 ''a'') ''a/b'' \<and>
   local_get (local_delete tree3 ''a'') ''ab'' = JNum 3"
proof -
  have pre: "startsWith ''a/b'' (''a'' @ ''/'')" "\<not> startsWith ''ab'' (''a'' @ ''/'')"
    by (simp_all add: startsWith_def)
  have before: "local_exists tree3 ''a''" "local_exists tree3 ''a/b''"
    "local_get tree3 ''ab'' = JNum 3"
    by (simp_all add: local_exists_def local_get_def getNestedValue_def tree3_data)
  from delete_cascade [of tree3 "''a''"] pre before show ?thesis
    by auto
qed

lemma local_set_get: "local_get (local_set a p v) p = v"
  by (simp add: local_get_def local_set_def setNestedValue_def getNestedValue_def Let_def
      AList.update_conv')

text \<open>
  Claim C1. In memory, \<open>get(p)\<close> after \<open>set(p, v)\<close> is \<open>v\<close> (\<open>local_set_get\<close>). Across
  a restart the value is lost when it is a non-array object: with \<open>{a: 1}\<close> stored
  under \<open>x\<close>, \<open>save\<close> succeeds and writes \<open>{x: {a: 1}}\<close>, and after the restart
  \<open>get('x')\<close> is \<open>undefined\<close> while the number has moved to the key \<open>x/a\<close>.
\<close>

theorem restart_loses_object_value:
  "local_get boxed ''x'' = JObj [(''a'', JNum 1)] \<and>
   snd (local_save boxed) = Inr () \<and>
   dataFile (fst (local_save boxed)) = Some (JObj [(''x'', JObj [(''a'', JNum 1)])]) \<and>
   local_get (local_restart (fst (local_save boxed))) ''x'' = JUndefined \<and>
   local_get (local_restart (fst (local_save boxed))) ''x/a'' = JNum 1"
  by (simp add: boxed_def local_get_def local_restart_def local_save_def local_set_def
      local_new_def setNestedValue_def getNestedValue_def pathToObject_def local_load_def
      objectToPath_def join_key_def)

section \<open>Properties of the registry\<close>




lemma register_distinct:
  "distinct (map fst (adapters reg)) \<Longrightarrow> distinct (map fst (adapters (register reg a)))"
  by (simp add: register_def Let_def AList.distinct_update)



section \<open>Properties of the Workrooms engine\<close>

subsection \<open>Creating a room\<close>

lemma joinRoom_member:
  assumes "map_of (rooms st) rid = Some room" and "u_id (currentUser st) \<in> set (r_members room)"
  shows "joinRoom st rid =
           (emit (gun_put st (PutPresence rid (u_id (currentUser st)) (Some (new_presence st rid))))
              EvJoin rid (DataUser (u_id (currentUser st))), Inr ())"
  using assms by (simp add: joinRoom_def Let_def)

lemma createRoom_unfold:
  "createRoom st rid options =
     (st\<lparr>rooms := AList.update rid (new_room st rid options) (rooms st),
         messages := AList.update rid [] (messages st),
         store := store st @ [PutRoom rid (new_room st rid options),
                              PutPresence rid (u_id (currentUser st)) (Some (new_presence st rid))],
         events := events st @
           [\<lparr>e_type = EvJoin, e_roomId = rid, e_userId = u_id (currentUser st),
             e_data = DataUser (u_id (currentUser st)), e_timestamp = clock st\<rparr>,
            \<lparr>e_type = EvRoomCreated, e_roomId = rid, e_userId = u_id (currentUser st),
             e_data = DataRoom (new_room st rid options), e_timestamp = clock st\<rparr>]\<rparr>,
      Inr (new_room st rid options))"
proof -
  let ?room = "new_room st rid options"
  let ?st3 = "st\<lparr>store := store st @ [PutRoom rid ?room],
                 rooms := AList.update rid ?room (rooms st),
                 messages := AList.update rid [] (messages st)\<rparr>"
  have found: "map_of (rooms ?st3) rid = Some ?room"
    by (simp add: AList.update_conv')
  have member: "u_id (currentUser ?st3) \<in> set (r_members ?room)"
    by (simp add: new_room_def)
  show ?thesis
    by (simp add: createRoom_def gun_put_def Let_def joinRoom_member [OF found member]
        emit_def new_presence_def AList.update_conv')
qed




subsection \<open>Failing operations leave the state alone\<close>

text \<open>
  Claim C3. In an existing room of which the caller is not a member, \<open>sendMessage\<close>
  fails with the error \<open>Not a member of this room\<close> (the code's form of the spec's
  \<open>NotMemberError\<close>) and the service is as before: the room, hence its message
  counter and activity timestamp, is unchanged and nothing was written to the store.
\<close>

theorem sendMessage_not_member:
  assumes "map_of (rooms st) rid = Some room"
      and "u_id (currentUser st) \<notin> set (r_members room)"
  shows "snd (sendMessage st mid rid content opts) = Inl (Error ''Not a member of this room'') \<and>
         fst (sendMessage st mid rid content opts) = st \<and>
         map_of (rooms (fst (sendMessage st mid rid content opts))) rid = Some room \<and>
         store (fst (sendMessage st mid rid content opts)) = store st"
  using assms by (simp add: sendMessage_def)

lemma demo_rooms: "rooms demo = [(''r1'', new_room empty_service ''r1'' demo_options)]"
  by (simp add: demo_def createRoom_unfold empty_service_def)

theorem sendMessage_not_member_witness:
  "map_of (rooms demo_bob) ''r1'' = Some (new_room empty_service ''r1'' demo_options) \<and>
   u_id (currentUser demo_bob) \<notin> set (r_members (new_room empty_service ''r1'' demo_options)) \<and>
   sendMessage demo_bob ''m1'' ''r1'' ''hi'' None =
     (demo_bob, Inl (Error ''Not a member of this room''))"
proof -
  have room: "map_of (rooms demo_bob) ''r1'' = Some (new_room empty_service ''r1'' demo_options)"
    by (simp add: demo_bob_def demo_rooms)
  have out: "u_id (currentUser demo_bob) \<notin> set (r_members (new_room empty_service ''r1'' demo_options))"
    by (simp add: demo_bob_def bob_def new_room_def empty_service_def alice_def)
  from sendMessage_not_member [OF room out, of "''m1''" "''hi''" None] room out
  show ?thesis
    by (simp add: prod_eq_iff)
qed

text \<open>
  Claim C9. For a room id that is not in the engine's map, \<open>joinRoom\<close> throws
  \<open>Room not found\<close> while \<open>leaveRoom\<close> returns normally; both leave the service
  as it was, so \<open>leaveRoom\<close> wrote nothing to the store and emitted no event.
\<close>

theorem unknown_room_join_leave:
  assumes "map_of (rooms st) rid = None"
  shows "joinRoom st rid = (st, Inl (Error ''Room not found'')) \<and>
         leaveRoom st rid = (st, Inr ()) \<and>
         store (fst (leaveRoom st rid)) = store st \<and>
         events (fst (leaveRoom st rid)) = events st"
  using assms by (simp add: joinRoom_def leaveRoom_def)

theorem unknown_room_join_leave_witness:
  "map_of (rooms demo) ''nowhere'' = None \<and>
   joinRoom demo ''nowhere'' = (demo, Inl (Error ''Room not found'')) \<and>
   leaveRoom demo ''nowhere'' = (demo, Inr ())"
proof -
  have absent: "map_of (rooms demo) ''nowhere'' = None"
    by (simp add: demo_rooms)
  from unknown_room_join_leave [OF absent] absent show ?thesis
    by simp
qed

subsection \<open>Reading the history\<close>

lemma slice_from_neg:
  "0 < l \<Longrightarrow> slice_from xs (- l) = drop (length xs - nat l) xs"
  by (auto simp: slice_from_def Let_def max_def nat_diff_distrib'
      intro!: arg_cong [where f = "\<lambda>k. drop k xs"])


lemma demo_messages: "messages demo = [(''r1'', [])]"
  by (simp add: demo_def createRoom_unfold empty_service_def)


lemma three_messages: "getRoomMessages three ''r1'' None = [msg ''a'' 1, msg ''b'' 2, msg ''c'' 3]"
  by (simp add: three_def shuffled_def onMessage_def Let_def demo_messages emit_def
      store_message_def msg_def getRoomMessages_def)

text \<open>
  Claim C10. For a positive limit \<open>l\<close>, \<open>getRoomMessages\<close> returns the last
  \<open>min l n\<close> of the room's \<open>n\<close> messages: a suffix of the sequence, in the same
  order, so sorted by timestamp when the sequence is. Without a limit it returns the
  sequence the map holds for the room, and when that is empty or missing it returns
  the empty list whatever the limit.
\<close>

theorem getRoomMessages_suffix:
  "(0 < l \<longrightarrow>
      getRoomMessages st rid (Some l) =
        drop (length (getRoomMessages st rid None) - nat l) (getRoomMessages st rid None) \<and>
      length (getRoomMessages st rid (Some l)) = min (nat l) (length (getRoomMessages st rid None)) \<and>
      suffix (getRoomMessages st rid (Some l)) (getRoomMessages st rid None) \<and>
      (sorted (map m_timestamp (getRoomMessages st rid None)) \<longrightarrow>
         sorted (map m_timestamp (getRoomMessages st rid (Some l))))) \<and>
   (getRoomMessages st rid None = [] \<longrightarrow> getRoomMessages st rid lim = []) \<and>
   getRoomMessages st rid None = (case map_of (messages st) rid of None \<Rightarrow> [] | Some ms \<Rightarrow> ms)"
proof -
  let ?ms = "getRoomMessages st rid None"
  have whole: "?ms = (case map_of (messages st) rid of None \<Rightarrow> [] | Some ms \<Rightarrow> ms)"
    by (simp add: getRoomMessages_def)
  have lim: "getRoomMessages st rid (Some l) = drop (length ?ms - nat l) ?ms" if "0 < l"
    using that by (simp add: getRoomMessages_def slice_from_neg Let_def)
  have empty: "getRoomMessages st rid lim = []" if "?ms = []"
    using that by (cases lim) (auto simp: getRoomMessages_def slice_from_def Let_def)
  have sorted_drop: "sorted (map m_timestamp (drop k ?ms))" if "sorted (map m_timestamp ?ms)" for k
    using that by (simp add: sorted_wrt_drop flip: drop_map)
  show ?thesis
    using whole lim empty sorted_drop by (auto simp: suffix_drop)
qed

theorem getRoomMessages_suffix_witness:
  "(0::int) < 2 \<and> sorted (map m_timestamp (getRoomMessages three ''r1'' None)) \<and>
   getRoomMessages three ''r1'' (Some 2) = [msg ''b'' 2, msg ''c'' 3] \<and>
   getRoomMessages demo ''r1'' None = [] \<and> getRoomMessages demo ''r1'' (Some 2) = []"
proof -
  have s: "sorted (map m_timestamp (getRoomMessages three ''r1'' None))"
    by (simp add: three_messages msg_def)
  have e: "getRoomMessages demo ''r1'' None = []"
    by (simp add: getRoomMessages_def demo_messages)
  from getRoomMessages_suffix [of 2 three "''r1''" "Some 2"]
    getRoomMessages_suffix [of 2 demo "''r1''" "Some 2"] s e three_messages
  show ?thesis
    by simp
qed

subsection \<open>Command dispatch\<close>






subsection \<open>The order of a room's messages\<close>










section \<open>Properties of subscriptions\<close>


















end
